theory Spec2Isabelle
  imports Main "HOL-Library.Multiset"
begin

section \<open>Values exchanged with the handlers of web\_app.py\<close>

text \<open>
  A Python \<open>str\<close> is modelled as a \<open>string\<close> whose characters are read as code
  points below 256.  The JSON values that \<open>request.get_json()\<close> can return are the
  Python objects produced by the JSON decoder: \<open>None\<close>, \<open>bool\<close>, \<open>int\<close>, \<open>float\<close>,
  \<open>str\<close>, \<open>list\<close> and \<open>dict\<close>.  A \<open>dict\<close> is an association list in which the first
  binding of a key is the effective one; a \<open>float\<close> is kept as mantissa and exponent,
  of which the handlers only ever observe whether the value is zero.
\<close>

datatype json =
    JNull
  | JBool bool
  | JInt int
  | JFloat int int
  | JStr string
  | JArr "json list"
  | JObj "(string \<times> json) list"

text \<open>The exceptions that can be raised inside the \<open>try\<close> blocks of the handlers.\<close>

datatype exn =
    BadRequest
  | TypeError
  | AttributeError
  | KeyError
  | OperationalError
  | DatabaseError
  | IntegrityError
  | DataError

text \<open>Sequencing of steps of which each may raise.\<close>

definition bind_exn :: "exn + 'a \<Rightarrow> ('a \<Rightarrow> exn + 'b) \<Rightarrow> exn + 'b" where
  "bind_exn m f = (case m of Inl e \<Rightarrow> Inl e | Inr x \<Rightarrow> f x)"

text \<open>
  \<open>request.get_json()\<close> either returns the decoded body or raises: with the default
  \<open>silent=False\<close> a body that cannot be decoded makes Flask call
  \<open>on_json_loading_failed\<close>, which raises \<open>werkzeug.exceptions.BadRequest\<close>, a subclass
  of \<open>Exception\<close>.
\<close>

datatype get_json_result = Raises | Returns json

record response =
  status :: nat
  body :: json

subsection \<open>Timestamps and \<open>datetime.isoformat()\<close>\<close>

record datetime =
  year :: nat
  month :: nat
  day :: nat
  hour :: nat
  minute :: nat
  second :: nat
  microsecond :: nat

definition digit_char :: "nat \<Rightarrow> char" where
  "digit_char n = ''0123456789'' ! (n mod 10)"

definition digits2 :: "nat \<Rightarrow> string" where
  "digits2 n = [digit_char (n div 10), digit_char n]"

definition digits4 :: "nat \<Rightarrow> string" where
  "digits4 n = [digit_char (n div 1000), digit_char (n div 100), digit_char (n div 10), digit_char n]"

definition digits6 :: "nat \<Rightarrow> string" where
  "digits6 n = [digit_char (n div 100000), digit_char (n div 10000), digit_char (n div 1000),
     digit_char (n div 100), digit_char (n div 10), digit_char n]"

text \<open>
  \<open>datetime.isoformat()\<close> of a naive timestamp: \<open>YYYY-MM-DDTHH:MM:SS\<close>, followed by
  \<open>.ffffff\<close> exactly when the microsecond field is not zero.
\<close>

definition isoformat :: "datetime \<Rightarrow> string" where
  "isoformat d =
     digits4 (year d) @ ''-'' @ digits2 (month d) @ ''-'' @ digits2 (day d) @ ''T'' @
     digits2 (hour d) @ '':'' @ digits2 (minute d) @ '':'' @ digits2 (second d) @
     (if microsecond d = 0 then [] else ''.'' @ digits6 (microsecond d))"

subsection \<open>Python operations used by the handlers\<close>

text \<open>\<open>str.isspace\<close> on the code points below 256.\<close>

definition isspace :: "char \<Rightarrow> bool" where
  "isspace c \<longleftrightarrow> c \<in> set [CHR 0x09, CHR 0x0A, CHR 0x0B, CHR 0x0C, CHR 0x0D,
     CHR 0x1C, CHR 0x1D, CHR 0x1E, CHR 0x1F, CHR 0x20, CHR 0x85, CHR 0xA0]"

definition lstrip :: "string \<Rightarrow> string" where
  "lstrip s = dropWhile isspace s"

definition rstrip :: "string \<Rightarrow> string" where
  "rstrip s = rev (dropWhile isspace (rev s))"

definition strip :: "string \<Rightarrow> string" where
  "strip s = rstrip (lstrip s)"

text \<open>Truth value of an object, as tested by \<open>not data\<close>.\<close>

fun truthy :: "json \<Rightarrow> bool" where
  "truthy JNull = False"
| "truthy (JBool b) = b"
| "truthy (JInt n) = (n \<noteq> 0)"
| "truthy (JFloat m e) = (m \<noteq> 0)"
| "truthy (JStr s) = (s \<noteq> [])"
| "truthy (JArr xs) = (xs \<noteq> [])"
| "truthy (JObj kvs) = (kvs \<noteq> [])"

fun starts_with :: "string \<Rightarrow> string \<Rightarrow> bool" where
  "starts_with [] s = True"
| "starts_with (p # ps) [] = False"
| "starts_with (p # ps) (c # cs) = (p = c \<and> starts_with ps cs)"

fun has_substring :: "string \<Rightarrow> string \<Rightarrow> bool" where
  "has_substring p [] = (p = [])"
| "has_substring p (c # cs) = (starts_with p (c # cs) \<or> has_substring p cs)"

text \<open>
  \<open>key in data\<close>: key membership for a \<open>dict\<close>, element membership for a \<open>list\<close>,
  substring test for a \<open>str\<close>, and \<open>TypeError\<close> for an object that is not iterable.
\<close>

fun py_in :: "string \<Rightarrow> json \<Rightarrow> exn + bool" where
  "py_in k (JObj kvs) = Inr (map_of kvs k \<noteq> None)"
| "py_in k (JArr xs) = Inr (JStr k \<in> set xs)"
| "py_in k (JStr s) = Inr (has_substring k s)"
| "py_in k JNull = Inl TypeError"
| "py_in k (JBool b) = Inl TypeError"
| "py_in k (JInt n) = Inl TypeError"
| "py_in k (JFloat m e) = Inl TypeError"

text \<open>
  \<open>data[key]\<close> with a \<open>str\<close> key: the value bound in a \<open>dict\<close> (\<open>KeyError\<close> when
  there is none) and \<open>TypeError\<close> for every other object.
\<close>

fun py_getitem :: "json \<Rightarrow> string \<Rightarrow> exn + json" where
  "py_getitem (JObj kvs) k = (case map_of kvs k of None \<Rightarrow> Inl KeyError | Some v \<Rightarrow> Inr v)"
| "py_getitem JNull k = Inl TypeError"
| "py_getitem (JBool b) k = Inl TypeError"
| "py_getitem (JInt n) k = Inl TypeError"
| "py_getitem (JFloat m e) k = Inl TypeError"
| "py_getitem (JStr s) k = Inl TypeError"
| "py_getitem (JArr xs) k = Inl TypeError"

text \<open>\<open>value.strip()\<close>: only a \<open>str\<close> has the method.\<close>

fun py_strip :: "json \<Rightarrow> exn + string" where
  "py_strip (JStr s) = Inr (strip s)"
| "py_strip JNull = Inl AttributeError"
| "py_strip (JBool b) = Inl AttributeError"
| "py_strip (JInt n) = Inl AttributeError"
| "py_strip (JFloat m e) = Inl AttributeError"
| "py_strip (JArr xs) = Inl AttributeError"
| "py_strip (JObj kvs) = Inl AttributeError"

subsection \<open>\<open>int(str)\<close> and \<open>request.args.get(key, default, type=int)\<close>\<close>

definition is_digit :: "char \<Rightarrow> bool" where
  "is_digit c \<longleftrightarrow> c \<in> set ''0123456789''"

definition digit_val :: "char \<Rightarrow> nat" where
  "digit_val c = of_char c - 48"

text \<open>Decimal digits in which single underscores may separate two digits.\<close>

fun parse_digits :: "nat \<Rightarrow> string \<Rightarrow> nat option" where
  "parse_digits acc [] = Some acc"
| "parse_digits acc [c] = (if is_digit c then Some (10 * acc + digit_val c) else None)"
| "parse_digits acc (c # d # ds) =
     (if is_digit c then parse_digits (10 * acc + digit_val c) (d # ds)
      else if c = CHR ''_'' \<and> is_digit d then parse_digits (10 * acc + digit_val d) ds
      else None)"

definition py_digits :: "string \<Rightarrow> nat option" where
  "py_digits s =
     (case s of [] \<Rightarrow> None
      | c # cs \<Rightarrow> if is_digit c then parse_digits (digit_val c) cs else None)"

text \<open>
  The whitespace that \<open>int()\<close> skips around the number.  It is not the set of
  \<open>str.strip()\<close>: the text is first copied with every code point from 127 on that
  \<open>str.isspace\<close> accepts turned into a blank, and the parser then skips the whitespace
  of the C locale only, so the separators \<open>0x1C\<close> to \<open>0x1F\<close> are not skipped.
\<close>

definition int_isspace :: "char \<Rightarrow> bool" where
  "int_isspace c \<longleftrightarrow> c \<in> set [CHR 0x09, CHR 0x0A, CHR 0x0B, CHR 0x0C, CHR 0x0D,
     CHR 0x20, CHR 0x85, CHR 0xA0]"

definition int_strip :: "string \<Rightarrow> string" where
  "int_strip s = rev (dropWhile int_isspace (rev (dropWhile int_isspace s)))"

text \<open>
  The limit on the length of a decimal integer text, \<open>sys.get_int_max_str_digits()\<close>:
  4300 by default where the interpreter has the limit, and 0 where it has none or the
  limit is switched off.  It is applied to texts of more than 640 digits, leading zeros
  counted, underscores not.
\<close>

definition exceeds_max_str_digits :: "nat \<Rightarrow> string \<Rightarrow> bool" where
  "exceeds_max_str_digits max_str_digits s \<longleftrightarrow>
     (let digits = length (filter is_digit s)
      in 640 < digits \<and> 0 < max_str_digits \<and> max_str_digits < digits)"

text \<open>
  \<open>int(s)\<close> in base ten: surrounding whitespace is skipped, one sign is allowed, and
  \<open>None\<close> stands for the \<open>ValueError\<close> raised on every other text and on a text
  with too many digits.
\<close>

definition py_int :: "nat \<Rightarrow> string \<Rightarrow> int option" where
  "py_int max_str_digits s =
     (if exceeds_max_str_digits max_str_digits s then None
      else case int_strip s of [] \<Rightarrow> None
      | c # cs \<Rightarrow>
          if c = CHR ''-'' then map_option (\<lambda>n. - int n) (py_digits cs)
          else if c = CHR ''+'' then map_option int (py_digits cs)
          else map_option int (py_digits (c # cs)))"

text \<open>
  \<open>MultiDict.get(key, default, type)\<close>: the default when the key is absent, and also
  when the conversion of the first value bound to the key raises \<open>ValueError\<close>.
\<close>

definition args_get :: "nat \<Rightarrow> (string \<times> string) list \<Rightarrow> string \<Rightarrow> int \<Rightarrow> int" where
  "args_get max_str_digits args k dflt =
     (case map_of args k of None \<Rightarrow> dflt
      | Some v \<Rightarrow> (case py_int max_str_digits v of None \<Rightarrow> dflt | Some n \<Rightarrow> n))"

section \<open>The database\<close>

record user_row =
  uid :: int
  first_name :: string
  last_name :: string
  created_at :: datetime

text \<open>
  Modelled from the spec: the \<open>users\<close> table, whose declaration is not part of the
  source.  Its \<open>id\<close> is an auto-generated primary key, drawn here from the counter
  \<open>next_id\<close>, and \<open>created_at\<close> is assigned by the server, here from \<open>clock\<close>.
\<close>

record database =
  users :: "user_row list"
  next_id :: int
  clock :: datetime

text \<open>
  The call of the database driver that raises \<open>psycopg2.Error\<close> during a request, if
  any: \<open>psycopg2.connect\<close>, \<open>cursor.execute\<close> (a lost connection, a value the column
  rejects) or \<open>connection.commit\<close>.
\<close>

datatype fault = NoFault | ConnectFails | ExecuteFails | CommitFails

definition get_db_connection :: "fault \<Rightarrow> exn + unit" where
  "get_db_connection flt = (if flt = ConnectFails then Inl OperationalError else Inr ())"

text \<open>
  \<open>INSERT INTO users (first_name, last_name) VALUES (%s, %s) RETURNING ...\<close>: the
  returned row and the table as it will be once the transaction is committed.  A second
  row with an existing primary key is rejected.
\<close>

definition execute_insert ::
  "fault \<Rightarrow> database \<Rightarrow> string \<Rightarrow> string \<Rightarrow> exn + (user_row \<times> database)" where
  "execute_insert flt db fn ln =
     (if flt = ExecuteFails then Inl DatabaseError
      else if next_id db \<in> set (map uid (users db)) then Inl IntegrityError
      else
        let user = \<lparr>uid = next_id db, first_name = fn, last_name = ln, created_at = clock db\<rparr>
        in Inr (user, db\<lparr>users := users db @ [user], next_id := next_id db + 1\<rparr>))"

definition commit :: "fault \<Rightarrow> exn + unit" where
  "commit flt = (if flt = CommitFails then Inl DatabaseError else Inr ())"

text \<open>\<open>SELECT ... FROM users WHERE id = %s\<close> followed by \<open>fetchone()\<close>.\<close>

definition execute_select_by_id :: "fault \<Rightarrow> database \<Rightarrow> int \<Rightarrow> exn + user_row option" where
  "execute_select_by_id flt db user_id =
     (if flt = ExecuteFails then Inl DatabaseError
      else Inr (find (\<lambda>u. uid u = user_id) (users db)))"

text \<open>
  A row count of \<open>LIMIT\<close> or \<open>OFFSET\<close> is a \<open>bigint\<close> that must not be negative;
  PostgreSQL rejects the statement otherwise.
\<close>

definition valid_row_count :: "int \<Rightarrow> bool" where
  "valid_row_count n \<longleftrightarrow> 0 \<le> n \<and> n < 2 ^ 63"

text \<open>
  \<open>SELECT ... FROM users ORDER BY id LIMIT %s OFFSET %s\<close> followed by \<open>fetchall()\<close>.
\<close>

definition execute_select_page ::
  "fault \<Rightarrow> database \<Rightarrow> int \<Rightarrow> int \<Rightarrow> exn + user_row list" where
  "execute_select_page flt db limit offset =
     (if flt = ExecuteFails then Inl DatabaseError
      else if \<not> valid_row_count limit \<or> \<not> valid_row_count offset then Inl DataError
      else Inr (take (nat limit) (drop (nat offset) (sort_key uid (users db)))))"

section \<open>The handlers\<close>

definition error_response :: "nat \<Rightarrow> string \<Rightarrow> response" where
  "error_response code msg = \<lparr>status = code, body = JObj [(''error'', JStr msg)]\<rparr>"

definition internal_server_error :: response where
  "internal_server_error = error_response 500 ''Internal server error''"

definition user_json :: "user_row \<Rightarrow> json" where
  "user_json u = JObj [(''id'', JInt (uid u)), (''first_name'', JStr (first_name u)),
     (''last_name'', JStr (last_name u)), (''created_at'', JStr (isoformat (created_at u)))]"

subsection \<open>\<open>POST /user\<close>\<close>

text \<open>
  The condition \<open>not data or 'first_name' not in data or 'last_name' not in data\<close>,
  evaluated from left to right and only as far as needed.
\<close>

definition names_missing :: "json \<Rightarrow> exn + bool" where
  "names_missing data =
     (if \<not> truthy data then Inr True
      else bind_exn (py_in ''first_name'' data) (\<lambda>has_first.
        if \<not> has_first then Inr True
        else bind_exn (py_in ''last_name'' data) (\<lambda>has_last. Inr (\<not> has_last))))"

text \<open>\<open>data[key].strip()\<close>\<close>

definition stripped_name :: "json \<Rightarrow> string \<Rightarrow> exn + string" where
  "stripped_name data k = bind_exn (py_getitem data k) py_strip"

text \<open>The part of \<open>create_user\<close> that talks to the database.\<close>

definition insert_user ::
  "fault \<Rightarrow> database \<Rightarrow> string \<Rightarrow> string \<Rightarrow> exn + (database \<times> response)" where
  "insert_user flt db fn ln =
     bind_exn (get_db_connection flt) (\<lambda>conn.
     bind_exn (execute_insert flt db fn ln) (\<lambda>inserted.
     bind_exn (commit flt) (\<lambda>done.
       Inr (snd inserted, \<lparr>status = 201, body = user_json (fst inserted)\<rparr>))))"

text \<open>The body of the \<open>try\<close> block of \<open>create_user\<close>.\<close>

definition create_user_try ::
  "fault \<Rightarrow> database \<Rightarrow> get_json_result \<Rightarrow> exn + (database \<times> response)" where
  "create_user_try flt db req =
     (case req of
        Raises \<Rightarrow> Inl BadRequest
      | Returns data \<Rightarrow>
          bind_exn (names_missing data) (\<lambda>invalid.
          if invalid then
            Inr (db, error_response 400 ''first_name and last_name are required'')
          else
            bind_exn (stripped_name data ''first_name'') (\<lambda>fn.
            bind_exn (stripped_name data ''last_name'') (\<lambda>ln.
            if fn = [] \<or> ln = [] then
              Inr (db, error_response 400 ''first_name and last_name cannot be empty'')
            else insert_user flt db fn ln))))"

text \<open>
  \<open>create_user\<close>: every exception of the \<open>try\<close> block is answered with status 500, and
  the transaction that was not committed leaves the table as it was.
\<close>

definition create_user :: "fault \<Rightarrow> database \<Rightarrow> get_json_result \<Rightarrow> database \<times> response" where
  "create_user flt db req =
     (case create_user_try flt db req of
        Inl e \<Rightarrow> (db, internal_server_error)
      | Inr r \<Rightarrow> r)"

subsection \<open>\<open>GET /user/<int:user_id>\<close>\<close>

definition get_user_try :: "fault \<Rightarrow> database \<Rightarrow> int \<Rightarrow> exn + response" where
  "get_user_try flt db user_id =
     bind_exn (get_db_connection flt) (\<lambda>conn.
     bind_exn (execute_select_by_id flt db user_id) (\<lambda>user.
       case user of
         None \<Rightarrow> Inr (error_response 404 ''User not found'')
       | Some u \<Rightarrow> Inr \<lparr>status = 200, body = user_json u\<rparr>))"

definition get_user :: "fault \<Rightarrow> database \<Rightarrow> int \<Rightarrow> database \<times> response" where
  "get_user flt db user_id =
     (case get_user_try flt db user_id of
        Inl e \<Rightarrow> (db, internal_server_error)
      | Inr r \<Rightarrow> (db, r))"

subsection \<open>\<open>GET /users\<close>\<close>

text \<open>
  The first argument is the interpreter's limit on integer texts, which decides what
  \<open>type=int\<close> accepts.
\<close>

definition get_all_users_try ::
  "nat \<Rightarrow> fault \<Rightarrow> database \<Rightarrow> (string \<times> string) list \<Rightarrow> exn + response" where
  "get_all_users_try max_str_digits flt db args =
     (let limit = args_get max_str_digits args ''limit'' 10;
          offset = args_get max_str_digits args ''offset'' 0
      in bind_exn (get_db_connection flt) (\<lambda>conn.
         bind_exn (execute_select_page flt db limit offset) (\<lambda>rows.
           Inr \<lparr>status = 200,
                body = JObj [(''users'', JArr (map user_json rows)),
                             (''limit'', JInt limit), (''offset'', JInt offset)]\<rparr>)))"

definition get_all_users ::
  "nat \<Rightarrow> fault \<Rightarrow> database \<Rightarrow> (string \<times> string) list \<Rightarrow> database \<times> response" where
  "get_all_users max_str_digits flt db args =
     (case get_all_users_try max_str_digits flt db args of
        Inl e \<Rightarrow> (db, internal_server_error)
      | Inr r \<Rightarrow> (db, r))"

section \<open>Properties of the handlers\<close>

subsection \<open>Auxiliary facts\<close>

lemma bind_exn_simps [simp]:
  "bind_exn (Inl e) f = Inl e"
  "bind_exn (Inr x) f = f x"
  by (simp_all add: bind_exn_def)

lemma names_missing_dict:
  "names_missing (JObj kvs) =
     Inr (map_of kvs ''first_name'' = None \<or> map_of kvs ''last_name'' = None)"
  by (cases kvs) (auto simp: names_missing_def)

lemma stripped_name_dict:
  "stripped_name (JObj kvs) k =
     (case map_of kvs k of None \<Rightarrow> Inl KeyError | Some v \<Rightarrow> py_strip v)"
  by (simp add: stripped_name_def split: option.splits)

lemma py_strip_non_string: "(\<forall>s. v \<noteq> JStr s) \<Longrightarrow> \<exists>e. py_strip v = Inl e"
  by (cases v) auto

lemma insert_user_ok:
  "next_id db \<notin> set (map uid (users db)) \<Longrightarrow>
   insert_user NoFault db fn ln =
     Inr (db\<lparr>users := users db @
               [\<lparr>uid = next_id db, first_name = fn, last_name = ln, created_at = clock db\<rparr>],
             next_id := next_id db + 1\<rparr>,
          \<lparr>status = 201,
           body = user_json
             \<lparr>uid = next_id db, first_name = fn, last_name = ln, created_at = clock db\<rparr>\<rparr>)"
  by (simp add: insert_user_def get_db_connection_def execute_insert_def commit_def Let_def)

lemma insert_user_fails:
  "flt \<noteq> NoFault \<or> next_id db \<in> set (map uid (users db)) \<Longrightarrow>
   \<exists>e. insert_user flt db fn ln = Inl e"
  by (cases flt)
    (auto simp: insert_user_def get_db_connection_def execute_insert_def commit_def Let_def)

subsection \<open>Facts about \<open>strip\<close>, \<open>isoformat\<close> and the query parameters\<close>

text \<open>\<open>strip\<close> removes a run of whitespace at each end and nothing else.\<close>

lemma strip_decomposition:
  "\<exists>a b. s = a @ strip s @ b \<and> (\<forall>c\<in>set a. isspace c) \<and> (\<forall>c\<in>set b. isspace c)"
proof -
  let ?t = "dropWhile isspace s"
  have "s = takeWhile isspace s @ ?t" by simp
  moreover have "?t = rev (dropWhile isspace (rev ?t)) @ rev (takeWhile isspace (rev ?t))"
    by (metis rev_append rev_rev_ident takeWhile_dropWhile_id)
  ultimately have "s = takeWhile isspace s @ strip s @ rev (takeWhile isspace (rev ?t))"
    by (simp add: strip_def lstrip_def rstrip_def)
  moreover have "\<forall>c\<in>set (takeWhile isspace s). isspace c"
    by (auto dest: set_takeWhileD)
  moreover have "\<forall>c\<in>set (rev (takeWhile isspace (rev ?t))). isspace c"
    by (auto dest: set_takeWhileD)
  ultimately show ?thesis by blast
qed

lemma strip_edges:
  assumes "strip s \<noteq> []"
  shows "\<not> isspace (hd (strip s)) \<and> \<not> isspace (last (strip s))"
proof -
  let ?t = "dropWhile isspace s"
  let ?u = "dropWhile isspace (rev ?t)"
  have u: "?u \<noteq> []" using assms by (simp add: strip_def lstrip_def rstrip_def)
  then have t: "?t \<noteq> []" by (cases "dropWhile isspace s") simp_all
  have "last (strip s) = hd ?u"
    using u by (simp add: strip_def lstrip_def rstrip_def last_rev)
  then have l: "\<not> isspace (last (strip s))"
    using hd_dropWhile [OF u] by simp
  have "?t = strip s @ rev (takeWhile isspace (rev ?t))"
    unfolding strip_def lstrip_def rstrip_def
    by (metis rev_append rev_rev_ident takeWhile_dropWhile_id)
  then have "hd ?t = hd (strip s)"
    using assms by (metis hd_append2)
  then have "\<not> isspace (hd (strip s))"
    using hd_dropWhile [OF t] by simp
  with l show ?thesis by simp
qed

text \<open>The layout of the text produced by \<open>isoformat\<close>.\<close>

lemma is_digit_digit_char: "is_digit (digit_char n)"
proof -
  have "n mod 10 < length ''0123456789''" by simp
  then show ?thesis
    unfolding is_digit_def digit_char_def by (rule nth_mem)
qed


lemma isoformat_layout:
  "\<exists>Y M D h m s frac.
     isoformat d = Y @ ''-'' @ M @ ''-'' @ D @ ''T'' @ h @ '':'' @ m @ '':'' @ s @ frac \<and>
     length Y = 4 \<and> length M = 2 \<and> length D = 2 \<and>
     length h = 2 \<and> length m = 2 \<and> length s = 2 \<and>
     list_all is_digit (Y @ M @ D @ h @ m @ s) \<and>
     (if microsecond d = 0 then frac = []
      else \<exists>us. frac = ''.'' @ us \<and> length us = 6 \<and> list_all is_digit us)"
  apply (rule exI [of _ "digits4 (year d)"])
  apply (rule exI [of _ "digits2 (month d)"])
  apply (rule exI [of _ "digits2 (day d)"])
  apply (rule exI [of _ "digits2 (hour d)"])
  apply (rule exI [of _ "digits2 (minute d)"])
  apply (rule exI [of _ "digits2 (second d)"])
  apply (rule exI [of _ "if microsecond d = 0 then [] else ''.'' @ digits6 (microsecond d)"])
  apply (simp add: isoformat_def digits2_def digits4_def digits6_def is_digit_digit_char)
  done

lemma map_of_filter_other_key:
  "map_of (filter (\<lambda>p. fst p \<noteq> k) args) k' = (if k' = k then None else map_of args k')"
  by (induction args) auto

lemma args_get_without:
  "args_get m (filter (\<lambda>p. fst p \<noteq> k) args) k' d =
     (if k' = k then d else args_get m args k' d)"
  by (simp add: args_get_def map_of_filter_other_key)

lemma short_text_within_limit: "length s \<le> 640 \<Longrightarrow> \<not> exceeds_max_str_digits m s"
proof -
  assume "length s \<le> 640"
  moreover have "length (filter is_digit s) \<le> length s" by simp
  ultimately show ?thesis
    unfolding exceeds_max_str_digits_def Let_def by linarith
qed

lemma py_int_examples:
  "py_int m ''-1'' = Some (- 1)"
  "py_int m ''abc'' = None"
  "py_int m ''1'' = Some 1"
  "py_int m ''2'' = Some 2"
  by (simp_all add: py_int_def short_text_within_limit int_strip_def int_isspace_def
      py_digits_def is_digit_def digit_val_def)

text \<open>
  A file separator before the digits is removed by \<open>strip()\<close> but is not skipped by
  \<open>int()\<close>.
\<close>

lemma py_int_file_separator:
  "strip [CHR 0x1C, CHR ''1''] = ''1'' \<and> py_int m [CHR 0x1C, CHR ''1''] = None"
  by (simp add: py_int_def short_text_within_limit int_strip_def int_isspace_def
      py_digits_def is_digit_def strip_def lstrip_def rstrip_def isspace_def)

lemma find_appended:
  "\<forall>x\<in>set xs. \<not> P x \<Longrightarrow> P y \<Longrightarrow> find P (xs @ [y]) = Some y"
  by (induction xs) auto

text \<open>The outcomes of \<open>create_user\<close>: three kinds of refusal, or one appended row.\<close>

lemma create_user_cases:
  "(create_user flt db req = (db, internal_server_error)) \<or>
   (create_user flt db req = (db, error_response 400 ''first_name and last_name are required'')) \<or>
   (create_user flt db req = (db, error_response 400 ''first_name and last_name cannot be empty'')) \<or>
   (\<exists>fn ln. flt = NoFault \<and> next_id db \<notin> set (map uid (users db)) \<and>
      create_user flt db req =
        (db\<lparr>users := users db @
              [\<lparr>uid = next_id db, first_name = fn, last_name = ln, created_at = clock db\<rparr>],
            next_id := next_id db + 1\<rparr>,
         \<lparr>status = 201,
          body = user_json
            \<lparr>uid = next_id db, first_name = fn, last_name = ln, created_at = clock db\<rparr>\<rparr>))"
proof (cases req)
  case Raises
  then show ?thesis by (simp add: create_user_def create_user_try_def)
next
  case (Returns data)
  show ?thesis
  proof (cases "names_missing data")
    case (Inl e)
    with Returns show ?thesis by (simp add: create_user_def create_user_try_def)
  next
    case miss: (Inr invalid)
    show ?thesis
    proof (cases invalid)
      case True
      with Returns miss show ?thesis by (simp add: create_user_def create_user_try_def)
    next
      case False
      show ?thesis
      proof (cases "stripped_name data ''first_name''")
        case (Inl e)
        with Returns miss False show ?thesis by (simp add: create_user_def create_user_try_def)
      next
        case fn: (Inr fn)
        show ?thesis
        proof (cases "stripped_name data ''last_name''")
          case (Inl e)
          with Returns miss False fn show ?thesis
            by (simp add: create_user_def create_user_try_def)
        next
          case ln: (Inr ln)
          show ?thesis
          proof (cases "fn = [] \<or> ln = []")
            case True
            with Returns miss False fn ln show ?thesis
              by (simp add: create_user_def create_user_try_def)
          next
            case nonempty: False
            show ?thesis
            proof (cases "flt = NoFault \<and> next_id db \<notin> set (map uid (users db))")
              case True
              with Returns miss \<open>\<not> invalid\<close> fn ln nonempty
              have "create_user flt db req =
                (db\<lparr>users := users db @
                   [\<lparr>uid = next_id db, first_name = fn, last_name = ln, created_at = clock db\<rparr>],
                   next_id := next_id db + 1\<rparr>,
                 \<lparr>status = 201,
                  body = user_json
                    \<lparr>uid = next_id db, first_name = fn, last_name = ln, created_at = clock db\<rparr>\<rparr>)"
                by (simp add: create_user_def create_user_try_def insert_user_ok)
              with True show ?thesis by blast
            next
              case False
              then obtain e where "insert_user flt db fn ln = Inl e"
                using insert_user_fails [of flt db fn ln] by blast
              with Returns miss \<open>\<not> invalid\<close> fn ln nonempty show ?thesis
                by (simp add: create_user_def create_user_try_def)
            qed
          qed
        qed
      qed
    qed
  qed
qed

text \<open>The definitions unfolded to run \<open>create_user\<close> on a given request.\<close>

lemmas eval_defs = create_user_def create_user_try_def names_missing_def stripped_name_def
  strip_def lstrip_def rstrip_def isspace_def insert_user_def get_db_connection_def
  execute_insert_def commit_def internal_server_error_def error_response_def Let_def

lemma get_all_users_status:
  "fst (get_all_users m flt db args) = db \<and>
   (status (snd (get_all_users m flt db args)) = 200 \<or>
    status (snd (get_all_users m flt db args)) = 500)"
  by (cases "get_all_users_try m flt db args")
    (auto simp: get_all_users_def get_all_users_try_def bind_exn_def Let_def
      internal_server_error_def error_response_def split: sum.splits)

text \<open>The answer of \<open>get_all_users\<close> when the statement is executed.\<close>

lemma get_all_users_answer:
  assumes "valid_row_count (args_get m args ''limit'' 10)"
    and "valid_row_count (args_get m args ''offset'' 0)"
  shows "get_all_users m NoFault db args =
     (db, \<lparr>status = 200,
           body = JObj [(''users'', JArr (map user_json
                           (take (nat (args_get m args ''limit'' 10))
                              (drop (nat (args_get m args ''offset'' 0))
                                 (sort_key uid (users db)))))),
                        (''limit'', JInt (args_get m args ''limit'' 10)),
                        (''offset'', JInt (args_get m args ''offset'' 0))]\<rparr>)"
  using assms
  by (simp add: get_all_users_def get_all_users_try_def get_db_connection_def
      execute_select_page_def Let_def)

subsection \<open>Creating a user\<close>

text \<open>
  C1.  A body that binds \<open>first_name\<close> and \<open>last_name\<close> to strings which are not empty
  after \<open>strip()\<close> is answered, when no database call fails and the key drawn for the
  new row is unused, with status 201 and the fields \<open>id\<close>, the stripped \<open>first_name\<close>,
  the stripped \<open>last_name\<close> and \<open>created_at\<close> in the format of \<open>isoformat()\<close>, that is
  \<open>YYYY-MM-DDTHH:MM:SS\<close> with \<open>.ffffff\<close> appended for a fraction of a second; the row
  appended to the table holds the stripped names.
\<close>

theorem create_user_valid_created:
  assumes "map_of kvs ''first_name'' = Some (JStr f)"
    and "map_of kvs ''last_name'' = Some (JStr l)"
    and "strip f \<noteq> []" and "strip l \<noteq> []"
    and "flt = NoFault" and "next_id db \<notin> set (map uid (users db))"
  shows "create_user flt db (Returns (JObj kvs)) =
    (db\<lparr>users := users db @
          [\<lparr>uid = next_id db, first_name = strip f, last_name = strip l,
            created_at = clock db\<rparr>],
        next_id := next_id db + 1\<rparr>,
     \<lparr>status = 201,
      body = JObj [(''id'', JInt (next_id db)), (''first_name'', JStr (strip f)),
                   (''last_name'', JStr (strip l)),
                   (''created_at'', JStr (isoformat (clock db)))]\<rparr>) \<and>
    (\<exists>Y M D h m s frac.
       isoformat (clock db) =
         Y @ ''-'' @ M @ ''-'' @ D @ ''T'' @ h @ '':'' @ m @ '':'' @ s @ frac \<and>
       length Y = 4 \<and> length M = 2 \<and> length D = 2 \<and>
       length h = 2 \<and> length m = 2 \<and> length s = 2 \<and>
       list_all is_digit (Y @ M @ D @ h @ m @ s) \<and>
       (if microsecond (clock db) = 0 then frac = []
        else \<exists>us. frac = ''.'' @ us \<and> length us = 6 \<and> list_all is_digit us))"
proof -
  have "create_user flt db (Returns (JObj kvs)) =
    (db\<lparr>users := users db @
          [\<lparr>uid = next_id db, first_name = strip f, last_name = strip l,
            created_at = clock db\<rparr>],
        next_id := next_id db + 1\<rparr>,
     \<lparr>status = 201,
      body = JObj [(''id'', JInt (next_id db)), (''first_name'', JStr (strip f)),
                   (''last_name'', JStr (strip l)),
                   (''created_at'', JStr (isoformat (clock db)))]\<rparr>)"
    using assms
    by (simp add: create_user_def create_user_try_def names_missing_dict stripped_name_dict
        insert_user_ok user_json_def)
  with isoformat_layout [of "clock db"] show ?thesis
    by (rule conjI [rotated])
qed

theorem create_user_valid_created_witness:
  "create_user NoFault
     \<lparr>users = [], next_id = 1,
      clock = \<lparr>year = 2024, month = 2, day = 3, hour = 4, minute = 5, second = 6,
        microsecond = 70\<rparr>\<rparr>
     (Returns (JObj [(''first_name'', JStr '' Ada ''), (''last_name'', JStr '' Lovelace '')])) =
   (\<lparr>users = [\<lparr>uid = 1, first_name = ''Ada'', last_name = ''Lovelace'',
        created_at = \<lparr>year = 2024, month = 2, day = 3, hour = 4, minute = 5, second = 6,
        microsecond = 70\<rparr>\<rparr>],
      next_id = 2,
      clock = \<lparr>year = 2024, month = 2, day = 3, hour = 4, minute = 5, second = 6,
        microsecond = 70\<rparr>\<rparr>,
    \<lparr>status = 201,
     body = JObj [(''id'', JInt 1), (''first_name'', JStr ''Ada''),
                  (''last_name'', JStr ''Lovelace''),
                  (''created_at'', JStr ''2024-02-03T04:05:06.000070'')]\<rparr>)"
proof -
  have s1: "strip '' Ada '' = ''Ada''" and s2: "strip '' Lovelace '' = ''Lovelace''"
    by (simp_all add: strip_def lstrip_def rstrip_def isspace_def)
  have iso: "isoformat \<lparr>year = 2024, month = 2, day = 3, hour = 4, minute = 5, second = 6,
        microsecond = 70\<rparr> = ''2024-02-03T04:05:06.000070''"
    by (simp add: isoformat_def digits6_def digits4_def digits2_def digit_char_def)
  have "create_user NoFault
     \<lparr>users = [], next_id = 1,
      clock = \<lparr>year = 2024, month = 2, day = 3, hour = 4, minute = 5, second = 6,
        microsecond = 70\<rparr>\<rparr>
     (Returns (JObj [(''first_name'', JStr '' Ada ''), (''last_name'', JStr '' Lovelace '')])) =
   (\<lparr>users = [], next_id = 1,
      clock = \<lparr>year = 2024, month = 2, day = 3, hour = 4, minute = 5, second = 6,
        microsecond = 70\<rparr>\<rparr>
     \<lparr>users := users \<lparr>users = [], next_id = 1,
      clock = \<lparr>year = 2024, month = 2, day = 3, hour = 4, minute = 5, second = 6,
        microsecond = 70\<rparr>\<rparr> @
          [\<lparr>uid = next_id \<lparr>users = [], next_id = 1,
      clock = \<lparr>year = 2024, month = 2, day = 3, hour = 4, minute = 5, second = 6,
        microsecond = 70\<rparr>\<rparr>, first_name = strip '' Ada '', last_name = strip '' Lovelace '',
            created_at = clock \<lparr>users = [], next_id = 1,
      clock = \<lparr>year = 2024, month = 2, day = 3, hour = 4, minute = 5, second = 6,
        microsecond = 70\<rparr>\<rparr>\<rparr>],
        next_id := next_id \<lparr>users = [], next_id = 1,
      clock = \<lparr>year = 2024, month = 2, day = 3, hour = 4, minute = 5, second = 6,
        microsecond = 70\<rparr>\<rparr> + 1\<rparr>,
     \<lparr>status = 201,
      body = JObj [(''id'', JInt (next_id \<lparr>users = [], next_id = 1,
      clock = \<lparr>year = 2024, month = 2, day = 3, hour = 4, minute = 5, second = 6,
        microsecond = 70\<rparr>\<rparr>)), (''first_name'', JStr (strip '' Ada '')),
                   (''last_name'', JStr (strip '' Lovelace '')),
                   (''created_at'', JStr (isoformat (clock \<lparr>users = [], next_id = 1,
      clock = \<lparr>year = 2024, month = 2, day = 3, hour = 4, minute = 5, second = 6,
        microsecond = 70\<rparr>\<rparr>)))]\<rparr>)"
    by (rule conjunct1 [OF create_user_valid_created
          [of "[(''first_name'', JStr '' Ada ''), (''last_name'', JStr '' Lovelace '')]"
            "'' Ada ''" "'' Lovelace ''" NoFault]])
      (simp_all add: s1 s2)
  then show ?thesis
    by (simp add: s1 s2 iso)
qed

text \<open>
  C2.  When the body cannot be decoded, \<open>request.get_json()\<close> raises inside the \<open>try\<close>
  block, so the request is answered with status 500 and not with the status 400 of the
  check that follows the call.
\<close>

theorem create_user_unparseable_body:
  "create_user flt db Raises =
     (db, \<lparr>status = 500, body = JObj [(''error'', JStr ''Internal server error'')]\<rparr>)"
  by (simp add: create_user_def create_user_try_def internal_server_error_def
      error_response_def)

text \<open>
  The check itself answers 400 for a \<open>dict\<close> that lacks one of the two keys, and for
  every decoded body that is false as a truth value (\<open>None\<close>, an empty \<open>dict\<close>).
\<close>

lemma create_user_missing_key:
  assumes "map_of kvs ''first_name'' = None \<or> map_of kvs ''last_name'' = None"
  shows "create_user flt db (Returns (JObj kvs)) =
     (db, \<lparr>status = 400,
           body = JObj [(''error'', JStr ''first_name and last_name are required'')]\<rparr>)"
  using assms
  by (auto simp: create_user_def create_user_try_def names_missing_dict error_response_def)

lemma create_user_falsy_body:
  assumes "\<not> truthy data"
  shows "create_user flt db (Returns data) =
     (db, \<lparr>status = 400,
           body = JObj [(''error'', JStr ''first_name and last_name are required'')]\<rparr>)"
  using assms
  by (simp add: create_user_def create_user_try_def names_missing_def error_response_def)

text \<open>
  A decoded body that is a number other than zero, or \<open>true\<close>, passes \<open>not data\<close> and
  makes the membership test raise \<open>TypeError\<close>, which is answered with status 500 too.
\<close>

lemma create_user_scalar_body:
  assumes "data = JInt n \<and> n \<noteq> 0 \<or> data = JBool True"
  shows "create_user flt db (Returns data) =
     (db, \<lparr>status = 500, body = JObj [(''error'', JStr ''Internal server error'')]\<rparr>)"
  using assms
  by (auto simp: create_user_def create_user_try_def names_missing_def
      internal_server_error_def error_response_def)

text \<open>
  C6.  A body that binds both names to strings of which at least one is empty after
  \<open>strip()\<close> is answered with status 400 and the message
  \<open>first_name and last_name cannot be empty\<close>, and the database is left as it was.
\<close>

theorem create_user_blank_name:
  assumes "map_of kvs ''first_name'' = Some (JStr f)"
    and "map_of kvs ''last_name'' = Some (JStr l)"
    and "strip f = [] \<or> strip l = []"
  shows "create_user flt db (Returns (JObj kvs)) =
     (db, \<lparr>status = 400,
           body = JObj [(''error'', JStr ''first_name and last_name cannot be empty'')]\<rparr>)"
  using assms
  by (auto simp: create_user_def create_user_try_def names_missing_dict stripped_name_dict
      error_response_def)

theorem create_user_blank_name_witness:
  "strip [CHR 0x20, CHR 0x09, CHR 0x0A] = [] \<and>
   create_user NoFault
     \<lparr>users = [], next_id = 1,
      clock = \<lparr>year = 2024, month = 2, day = 3, hour = 4, minute = 5, second = 6, microsecond = 0\<rparr>\<rparr>
     (Returns (JObj [(''first_name'', JStr [CHR 0x20, CHR 0x09, CHR 0x0A]),
                     (''last_name'', JStr ''Lovelace'')])) =
   (\<lparr>users = [], next_id = 1,
      clock = \<lparr>year = 2024, month = 2, day = 3, hour = 4, minute = 5, second = 6, microsecond = 0\<rparr>\<rparr>,
    \<lparr>status = 400,
     body = JObj [(''error'', JStr ''first_name and last_name cannot be empty'')]\<rparr>)"
proof -
  have blank: "strip [CHR 0x20, CHR 0x09, CHR 0x0A] = []"
    by (simp add: strip_def lstrip_def rstrip_def isspace_def)
  show ?thesis
    using blank create_user_blank_name
      [of "[(''first_name'', JStr [CHR 0x20, CHR 0x09, CHR 0x0A]),
            (''last_name'', JStr ''Lovelace'')]"
        "[CHR 0x20, CHR 0x09, CHR 0x0A]" "''Lovelace''" NoFault
        "\<lparr>users = [], next_id = 1,
      clock = \<lparr>year = 2024, month = 2, day = 3, hour = 4, minute = 5, second = 6, microsecond = 0\<rparr>\<rparr>"]
    by simp
qed

text \<open>
  C9.  A body that binds both names, at least one of them to a value that is not a
  string, is answered with status 500 and the message \<open>Internal server error\<close>, since
  \<open>strip\<close> is looked up on a value that has no such method; the database is left as it
  was.
\<close>

theorem create_user_non_string_name:
  assumes "map_of kvs ''first_name'' = Some v1"
    and "map_of kvs ''last_name'' = Some v2"
    and "(\<forall>s. v1 \<noteq> JStr s) \<or> (\<forall>s. v2 \<noteq> JStr s)"
  shows "create_user flt db (Returns (JObj kvs)) =
     (db, \<lparr>status = 500, body = JObj [(''error'', JStr ''Internal server error'')]\<rparr>)"
proof -
  have raises: "\<exists>e. bind_exn (py_strip v1) (\<lambda>fn. bind_exn (py_strip v2) (g fn)) = Inl e"
    for g :: "string \<Rightarrow> string \<Rightarrow> exn + (database \<times> response)"
  proof (cases "py_strip v1")
    case (Inl e)
    then show ?thesis by simp
  next
    case (Inr fn)
    then have "\<exists>s. v1 = JStr s" by (cases v1) auto
    with assms(3) have "\<forall>s. v2 \<noteq> JStr s" by blast
    then obtain e where "py_strip v2 = Inl e" using py_strip_non_string by blast
    with Inr show ?thesis by simp
  qed
  show ?thesis
    using assms(1,2)
      raises [of "\<lambda>fn ln. if fn = [] \<or> ln = [] then
         Inr (db, error_response 400 ''first_name and last_name cannot be empty'')
       else insert_user flt db fn ln"]
    by (auto simp: create_user_def create_user_try_def names_missing_dict stripped_name_dict
        internal_server_error_def error_response_def)
qed

theorem create_user_non_string_name_witness:
  "create_user NoFault
     \<lparr>users = [], next_id = 1,
      clock = \<lparr>year = 2024, month = 2, day = 3, hour = 4, minute = 5, second = 6, microsecond = 0\<rparr>\<rparr>
     (Returns (JObj [(''first_name'', JStr ''Ada''), (''last_name'', JNull)])) =
   (\<lparr>users = [], next_id = 1,
      clock = \<lparr>year = 2024, month = 2, day = 3, hour = 4, minute = 5, second = 6, microsecond = 0\<rparr>\<rparr>,
    \<lparr>status = 500, body = JObj [(''error'', JStr ''Internal server error'')]\<rparr>)"
  using create_user_non_string_name
    [of "[(''first_name'', JStr ''Ada''), (''last_name'', JNull)]" "JStr ''Ada''" JNull NoFault
      "\<lparr>users = [], next_id = 1,
      clock = \<lparr>year = 2024, month = 2, day = 3, hour = 4, minute = 5, second = 6, microsecond = 0\<rparr>\<rparr>"]
  by simp

text \<open>
  C10.  Two bodies that agree on the values bound to \<open>first_name\<close> and \<open>last_name\<close> are
  answered alike and leave the same database behind, whatever other keys they hold.
\<close>

theorem create_user_ignores_extra_keys:
  assumes "map_of kvs ''first_name'' = map_of kvs' ''first_name''"
    and "map_of kvs ''last_name'' = map_of kvs' ''last_name''"
  shows "create_user flt db (Returns (JObj kvs)) = create_user flt db (Returns (JObj kvs'))"
  using assms
  by (simp add: create_user_def create_user_try_def names_missing_dict stripped_name_dict)

theorem create_user_ignores_extra_keys_witness:
  "create_user NoFault
     \<lparr>users = [], next_id = 1,
      clock = \<lparr>year = 2024, month = 2, day = 3, hour = 4, minute = 5, second = 6, microsecond = 0\<rparr>\<rparr>
     (Returns (JObj [(''first_name'', JStr ''Ada''), (''last_name'', JStr ''Lovelace'')])) =
   create_user NoFault
     \<lparr>users = [], next_id = 1,
      clock = \<lparr>year = 2024, month = 2, day = 3, hour = 4, minute = 5, second = 6, microsecond = 0\<rparr>\<rparr>
     (Returns (JObj [(''id'', JInt 99), (''first_name'', JStr ''Ada''), (''admin'', JBool True),
                     (''last_name'', JStr ''Lovelace'')]))"
  using create_user_ignores_extra_keys
    [of "[(''first_name'', JStr ''Ada''), (''last_name'', JStr ''Lovelace'')]"
      "[(''id'', JInt 99), (''first_name'', JStr ''Ada''), (''admin'', JBool True),
        (''last_name'', JStr ''Lovelace'')]"
      NoFault
      "\<lparr>users = [], next_id = 1,
      clock = \<lparr>year = 2024, month = 2, day = 3, hour = 4, minute = 5, second = 6, microsecond = 0\<rparr>\<rparr>"]
  by simp

text \<open>
  C5.  \<open>create_user\<close> appends exactly one row when it answers 201 and leaves the
  database as it was whenever it answers anything else; and when the names are valid but
  a database call fails (at connecting, executing or committing, or because the key is
  taken), the answer is status 500 with the fixed message \<open>Internal server error\<close>,
  which tells nothing about the failure.
\<close>

theorem create_user_atomic:
  "(status (snd (create_user flt db req)) = 201 \<longrightarrow>
      (\<exists>u. fst (create_user flt db req) =
         db\<lparr>users := users db @ [u], next_id := next_id db + 1\<rparr>)) \<and>
   (status (snd (create_user flt db req)) \<noteq> 201 \<longrightarrow> fst (create_user flt db req) = db) \<and>
   (req = Returns (JObj kvs) \<and> map_of kvs ''first_name'' = Some (JStr f) \<and>
    map_of kvs ''last_name'' = Some (JStr l) \<and> strip f \<noteq> [] \<and> strip l \<noteq> [] \<and>
    (flt \<noteq> NoFault \<or> next_id db \<in> set (map uid (users db))) \<longrightarrow>
      create_user flt db req =
        (db, \<lparr>status = 500, body = JObj [(''error'', JStr ''Internal server error'')]\<rparr>))"
proof (intro conjI impI)
  assume "status (snd (create_user flt db req)) = 201"
  with create_user_cases [of flt db req]
  show "\<exists>u. fst (create_user flt db req) = db\<lparr>users := users db @ [u], next_id := next_id db + 1\<rparr>"
    by (auto simp: internal_server_error_def error_response_def)
next
  assume "status (snd (create_user flt db req)) \<noteq> 201"
  with create_user_cases [of flt db req]
  show "fst (create_user flt db req) = db"
    by (auto simp: internal_server_error_def error_response_def)
next
  assume a: "req = Returns (JObj kvs) \<and> map_of kvs ''first_name'' = Some (JStr f) \<and>
    map_of kvs ''last_name'' = Some (JStr l) \<and> strip f \<noteq> [] \<and> strip l \<noteq> [] \<and>
    (flt \<noteq> NoFault \<or> next_id db \<in> set (map uid (users db)))"
  then obtain e where "insert_user flt db (strip f) (strip l) = Inl e"
    using insert_user_fails [of flt db "strip f" "strip l"] by blast
  with a show "create_user flt db req =
        (db, \<lparr>status = 500, body = JObj [(''error'', JStr ''Internal server error'')]\<rparr>)"
    by (simp add: create_user_def create_user_try_def names_missing_dict stripped_name_dict
        internal_server_error_def error_response_def)
qed

theorem create_user_atomic_witness:
  "(status (snd (create_user NoFault \<lparr>users = [], next_id = 1, clock = \<lparr>year = 2024, month = 2, day = 3, hour = 4, minute = 5, second = 6, microsecond = 0\<rparr>\<rparr> (Returns (JObj [(''first_name'', JStr '' Ada ''), (''last_name'', JStr '' Lovelace '')])))) = 201 \<and>
    (\<exists>u. fst (create_user NoFault \<lparr>users = [], next_id = 1, clock = \<lparr>year = 2024, month = 2, day = 3, hour = 4, minute = 5, second = 6, microsecond = 0\<rparr>\<rparr> (Returns (JObj [(''first_name'', JStr '' Ada ''), (''last_name'', JStr '' Lovelace '')]))) = \<lparr>users = [], next_id = 1, clock = \<lparr>year = 2024, month = 2, day = 3, hour = 4, minute = 5, second = 6, microsecond = 0\<rparr>\<rparr>\<lparr>users := users \<lparr>users = [], next_id = 1, clock = \<lparr>year = 2024, month = 2, day = 3, hour = 4, minute = 5, second = 6, microsecond = 0\<rparr>\<rparr> @ [u], next_id := next_id \<lparr>users = [], next_id = 1, clock = \<lparr>year = 2024, month = 2, day = 3, hour = 4, minute = 5, second = 6, microsecond = 0\<rparr>\<rparr> + 1\<rparr>)) \<and>
   (status (snd (create_user NoFault \<lparr>users = [], next_id = 1, clock = \<lparr>year = 2024, month = 2, day = 3, hour = 4, minute = 5, second = 6, microsecond = 0\<rparr>\<rparr> (Returns JNull))) \<noteq> 201 \<and>
    fst (create_user NoFault \<lparr>users = [], next_id = 1, clock = \<lparr>year = 2024, month = 2, day = 3, hour = 4, minute = 5, second = 6, microsecond = 0\<rparr>\<rparr> (Returns JNull)) = \<lparr>users = [], next_id = 1, clock = \<lparr>year = 2024, month = 2, day = 3, hour = 4, minute = 5, second = 6, microsecond = 0\<rparr>\<rparr>) \<and>
   create_user CommitFails \<lparr>users = [], next_id = 1, clock = \<lparr>year = 2024, month = 2, day = 3, hour = 4, minute = 5, second = 6, microsecond = 0\<rparr>\<rparr> (Returns (JObj [(''first_name'', JStr '' Ada ''), (''last_name'', JStr '' Lovelace '')])) =
     (\<lparr>users = [], next_id = 1, clock = \<lparr>year = 2024, month = 2, day = 3, hour = 4, minute = 5, second = 6, microsecond = 0\<rparr>\<rparr>, \<lparr>status = 500, body = JObj [(''error'', JStr ''Internal server error'')]\<rparr>)"
proof -
  have ok: "status (snd (create_user NoFault \<lparr>users = [], next_id = 1, clock = \<lparr>year = 2024, month = 2, day = 3, hour = 4, minute = 5, second = 6, microsecond = 0\<rparr>\<rparr> (Returns (JObj [(''first_name'', JStr '' Ada ''), (''last_name'', JStr '' Lovelace '')])))) = 201"
    by (simp add: eval_defs)
  have bad: "status (snd (create_user NoFault \<lparr>users = [], next_id = 1, clock = \<lparr>year = 2024, month = 2, day = 3, hour = 4, minute = 5, second = 6, microsecond = 0\<rparr>\<rparr> (Returns JNull))) \<noteq> 201"
    by (simp add: eval_defs)
  have s1: "strip '' Ada '' \<noteq> []" and s2: "strip '' Lovelace '' \<noteq> []"
    by (simp_all add: strip_def lstrip_def rstrip_def isspace_def)
  show ?thesis
    using ok bad s1 s2
      create_user_atomic [of NoFault "\<lparr>users = [], next_id = 1, clock = \<lparr>year = 2024, month = 2, day = 3, hour = 4, minute = 5, second = 6, microsecond = 0\<rparr>\<rparr>" "(Returns (JObj [(''first_name'', JStr '' Ada ''), (''last_name'', JStr '' Lovelace '')]))"]
      create_user_atomic [of NoFault "\<lparr>users = [], next_id = 1, clock = \<lparr>year = 2024, month = 2, day = 3, hour = 4, minute = 5, second = 6, microsecond = 0\<rparr>\<rparr>" "Returns JNull"]
      create_user_atomic [of CommitFails "\<lparr>users = [], next_id = 1, clock = \<lparr>year = 2024, month = 2, day = 3, hour = 4, minute = 5, second = 6, microsecond = 0\<rparr>\<rparr>" "(Returns (JObj [(''first_name'', JStr '' Ada ''), (''last_name'', JStr '' Lovelace '')]))"
        "[(''first_name'', JStr '' Ada ''), (''last_name'', JStr '' Lovelace '')]"
        "'' Ada ''" "'' Lovelace ''"]
    by simp
qed

subsection \<open>Fetching one user\<close>

text \<open>
  C7.  When no database call fails and no row has the requested id, \<open>get_user\<close>
  answers with status 404 and the message \<open>User not found\<close>, and the database is as it
  was.
\<close>

theorem get_user_not_found:
  assumes "flt = NoFault" and "user_id \<notin> set (map uid (users db))"
  shows "get_user flt db user_id =
     (db, \<lparr>status = 404, body = JObj [(''error'', JStr ''User not found'')]\<rparr>)"
proof -
  have "find (\<lambda>u. uid u = user_id) (users db) = None"
    using assms(2) by (auto simp: find_None_iff)
  with assms(1) show ?thesis
    by (simp add: get_user_def get_user_try_def get_db_connection_def execute_select_by_id_def
        error_response_def)
qed

theorem get_user_not_found_witness:
  "7 \<notin> set (map uid (users \<lparr>users = [\<lparr>uid = 1, first_name = ''Ada'', last_name = ''Lovelace'', created_at = \<lparr>year = 2024, month = 2, day = 3, hour = 4, minute = 5, second = 6, microsecond = 0\<rparr>\<rparr>], next_id = 2, clock = \<lparr>year = 2024, month = 2, day = 3, hour = 4, minute = 5, second = 6, microsecond = 0\<rparr>\<rparr>)) \<and>
   get_user NoFault \<lparr>users = [\<lparr>uid = 1, first_name = ''Ada'', last_name = ''Lovelace'', created_at = \<lparr>year = 2024, month = 2, day = 3, hour = 4, minute = 5, second = 6, microsecond = 0\<rparr>\<rparr>], next_id = 2, clock = \<lparr>year = 2024, month = 2, day = 3, hour = 4, minute = 5, second = 6, microsecond = 0\<rparr>\<rparr> 7 =
     (\<lparr>users = [\<lparr>uid = 1, first_name = ''Ada'', last_name = ''Lovelace'', created_at = \<lparr>year = 2024, month = 2, day = 3, hour = 4, minute = 5, second = 6, microsecond = 0\<rparr>\<rparr>], next_id = 2, clock = \<lparr>year = 2024, month = 2, day = 3, hour = 4, minute = 5, second = 6, microsecond = 0\<rparr>\<rparr>, \<lparr>status = 404, body = JObj [(''error'', JStr ''User not found'')]\<rparr>)"
  using get_user_not_found [of NoFault 7 "\<lparr>users = [\<lparr>uid = 1, first_name = ''Ada'', last_name = ''Lovelace'', created_at = \<lparr>year = 2024, month = 2, day = 3, hour = 4, minute = 5, second = 6, microsecond = 0\<rparr>\<rparr>], next_id = 2, clock = \<lparr>year = 2024, month = 2, day = 3, hour = 4, minute = 5, second = 6, microsecond = 0\<rparr>\<rparr>"]
  by simp

text \<open>
  C8.  When \<open>create_user\<close> has answered 201, fetching the id of that answer from the
  resulting database gives status 200 and exactly the body of the creation answer.
\<close>

theorem get_user_after_create:
  assumes "create_user flt db req = (db', r)" and "status r = 201"
    and "body r = JObj kvs" and "map_of kvs ''id'' = Some (JInt i)"
  shows "get_user NoFault db' i = (db', \<lparr>status = 200, body = body r\<rparr>)"
proof -
  from create_user_cases [of flt db req] assms(1,2)
  obtain fn ln where fresh: "next_id db \<notin> set (map uid (users db))"
    and db': "db' = db\<lparr>users := users db @
              [\<lparr>uid = next_id db, first_name = fn, last_name = ln, created_at = clock db\<rparr>],
            next_id := next_id db + 1\<rparr>"
    and r: "r = \<lparr>status = 201, body = user_json
            \<lparr>uid = next_id db, first_name = fn, last_name = ln, created_at = clock db\<rparr>\<rparr>"
    by (auto simp: internal_server_error_def error_response_def)
  from r assms(3,4) have i: "i = next_id db"
    by (auto simp: user_json_def)
  have "find (\<lambda>u. uid u = i) (users db') =
      Some \<lparr>uid = next_id db, first_name = fn, last_name = ln, created_at = clock db\<rparr>"
  proof -
    have "\<forall>u\<in>set (users db). \<not> uid u = next_id db"
      using fresh by (metis imageI set_map)
    then show ?thesis
      unfolding db' i by (simp add: find_appended)
  qed
  then show ?thesis
    by (simp add: get_user_def get_user_try_def get_db_connection_def execute_select_by_id_def r)
qed

theorem get_user_after_create_witness:
  "get_user NoFault \<lparr>users = [\<lparr>uid = 1, first_name = ''Ada'', last_name = ''Lovelace'', created_at = \<lparr>year = 2024, month = 2, day = 3, hour = 4, minute = 5, second = 6, microsecond = 0\<rparr>\<rparr>], next_id = 2, clock = \<lparr>year = 2024, month = 2, day = 3, hour = 4, minute = 5, second = 6, microsecond = 0\<rparr>\<rparr> 1 =
     (\<lparr>users = [\<lparr>uid = 1, first_name = ''Ada'', last_name = ''Lovelace'', created_at = \<lparr>year = 2024, month = 2, day = 3, hour = 4, minute = 5, second = 6, microsecond = 0\<rparr>\<rparr>], next_id = 2, clock = \<lparr>year = 2024, month = 2, day = 3, hour = 4, minute = 5, second = 6, microsecond = 0\<rparr>\<rparr>, \<lparr>status = 200,
       body = JObj [(''id'', JInt 1), (''first_name'', JStr ''Ada''),
                    (''last_name'', JStr ''Lovelace''),
                    (''created_at'', JStr (isoformat \<lparr>year = 2024, month = 2, day = 3, hour = 4, minute = 5, second = 6, microsecond = 0\<rparr>))]\<rparr>)"
proof -
  have created: "create_user NoFault \<lparr>users = [], next_id = 1, clock = \<lparr>year = 2024, month = 2, day = 3, hour = 4, minute = 5, second = 6, microsecond = 0\<rparr>\<rparr> (Returns (JObj [(''first_name'', JStr '' Ada ''), (''last_name'', JStr '' Lovelace '')])) =
     (\<lparr>users = [\<lparr>uid = 1, first_name = ''Ada'', last_name = ''Lovelace'', created_at = \<lparr>year = 2024, month = 2, day = 3, hour = 4, minute = 5, second = 6, microsecond = 0\<rparr>\<rparr>], next_id = 2, clock = \<lparr>year = 2024, month = 2, day = 3, hour = 4, minute = 5, second = 6, microsecond = 0\<rparr>\<rparr>, \<lparr>status = 201,
       body = JObj [(''id'', JInt 1), (''first_name'', JStr ''Ada''),
                    (''last_name'', JStr ''Lovelace''),
                    (''created_at'', JStr (isoformat \<lparr>year = 2024, month = 2, day = 3, hour = 4, minute = 5, second = 6, microsecond = 0\<rparr>))]\<rparr>)"
    by (simp add: eval_defs user_json_def)
  show ?thesis
    using get_user_after_create [OF created, of
        "[(''id'', JInt 1), (''first_name'', JStr ''Ada''),
                    (''last_name'', JStr ''Lovelace''),
                    (''created_at'', JStr (isoformat \<lparr>year = 2024, month = 2, day = 3, hour = 4, minute = 5, second = 6, microsecond = 0\<rparr>))]" 1]
    by simp
qed

subsection \<open>Listing users\<close>

text \<open>
  C3.  The claim that every listing request is answered with status 200 fails for a
  negative \<open>limit\<close>: the value is handed to the statement as it is, the database
  rejects it, and the request is answered with status 500.
\<close>

theorem get_all_users_negative_limit:
  "args_get 4300 [(''limit'', ''-1'')] ''limit'' 10 = - 1 \<and>
   get_all_users 4300 NoFault
     \<lparr>users =
          [\<lparr>uid = 2, first_name = ''Alan'', last_name = ''Turing'',
           created_at = \<lparr>year = 2024, month = 2, day = 3, hour = 4, minute = 5, second = 6,
             microsecond = 0\<rparr>\<rparr>,
           \<lparr>uid = 3, first_name = ''Grace'', last_name = ''Hopper'',
           created_at = \<lparr>year = 2024, month = 2, day = 3, hour = 4, minute = 5, second = 6,
             microsecond = 0\<rparr>\<rparr>,
           \<lparr>uid = 1, first_name = ''Ada'', last_name = ''Lovelace'',
           created_at = \<lparr>year = 2024, month = 2, day = 3, hour = 4, minute = 5, second = 6,
             microsecond = 0\<rparr>\<rparr>],
         next_id = 4,
         clock = \<lparr>year = 2024, month = 2, day = 3, hour = 4, minute = 5, second = 6,
             microsecond = 0\<rparr>\<rparr>
     [(''limit'', ''-1'')] =
   (\<lparr>users =
          [\<lparr>uid = 2, first_name = ''Alan'', last_name = ''Turing'',
           created_at = \<lparr>year = 2024, month = 2, day = 3, hour = 4, minute = 5, second = 6,
             microsecond = 0\<rparr>\<rparr>,
           \<lparr>uid = 3, first_name = ''Grace'', last_name = ''Hopper'',
           created_at = \<lparr>year = 2024, month = 2, day = 3, hour = 4, minute = 5, second = 6,
             microsecond = 0\<rparr>\<rparr>,
           \<lparr>uid = 1, first_name = ''Ada'', last_name = ''Lovelace'',
           created_at = \<lparr>year = 2024, month = 2, day = 3, hour = 4, minute = 5, second = 6,
             microsecond = 0\<rparr>\<rparr>],
         next_id = 4,
         clock = \<lparr>year = 2024, month = 2, day = 3, hour = 4, minute = 5, second = 6,
             microsecond = 0\<rparr>\<rparr>,
    \<lparr>status = 500, body = JObj [(''error'', JStr ''Internal server error'')]\<rparr>)"
  by (simp add: get_all_users_def get_all_users_try_def args_get_def py_int_examples
      get_db_connection_def execute_select_page_def valid_row_count_def
      internal_server_error_def error_response_def)

text \<open>
  C3, as amended.  When no database call fails and the effective \<open>limit\<close> and \<open>offset\<close>
  (the query parameters as \<open>type=int\<close> reads them, or 10 and 0) are row counts the
  database accepts, the answer has status 200; its \<open>users\<close> are the stored rows sorted
  by ascending id, without the first \<open>offset\<close> of them and cut after \<open>limit\<close> rows, and
  its \<open>limit\<close> and \<open>offset\<close> are the effective values.
\<close>

theorem get_all_users_page:
  assumes "flt = NoFault"
    and "lim = args_get m args ''limit'' 10" and "off = args_get m args ''offset'' 0"
    and "valid_row_count lim" and "valid_row_count off"
  shows "\<exists>rows page. rows = sort_key uid (users db) \<and> mset rows = mset (users db) \<and>
      sorted (map uid rows) \<and>
      page = take (nat lim) (drop (nat off) rows) \<and> int (length page) \<le> lim \<and>
      get_all_users m flt db args =
        (db, \<lparr>status = 200,
              body = JObj [(''users'', JArr (map user_json page)),
                           (''limit'', JInt lim), (''offset'', JInt off)]\<rparr>)"
proof -
  define rows where "rows = sort_key uid (users db)"
  define page where "page = take (nat lim) (drop (nat off) rows)"
  have perm: "mset rows = mset (users db)"
    by (simp add: rows_def)
  have ordered: "sorted (map uid rows)"
    by (simp add: rows_def)
  have "length page \<le> nat lim"
    by (simp add: page_def)
  with assms(4) have bounded: "int (length page) \<le> lim"
    unfolding valid_row_count_def by linarith
  have answer: "get_all_users m flt db args =
      (db, \<lparr>status = 200,
            body = JObj [(''users'', JArr (map user_json page)),
                         (''limit'', JInt lim), (''offset'', JInt off)]\<rparr>)"
    using get_all_users_answer [of m args db] assms
    by (simp add: page_def rows_def)
  from rows_def perm ordered page_def bounded answer show ?thesis
    by blast
qed

text \<open>
  Three rows stored out of order: the page of one row after one skipped row holds the
  row with the second smallest id, and a request without parameters lists all three in
  the order of their ids and echoes 10 and 0.
\<close>

theorem get_all_users_page_witness:
  "get_all_users 4300 NoFault
     \<lparr>users =
          [\<lparr>uid = 2, first_name = ''Alan'', last_name = ''Turing'',
           created_at = \<lparr>year = 2024, month = 2, day = 3, hour = 4, minute = 5, second = 6,
             microsecond = 0\<rparr>\<rparr>,
           \<lparr>uid = 3, first_name = ''Grace'', last_name = ''Hopper'',
           created_at = \<lparr>year = 2024, month = 2, day = 3, hour = 4, minute = 5, second = 6,
             microsecond = 0\<rparr>\<rparr>,
           \<lparr>uid = 1, first_name = ''Ada'', last_name = ''Lovelace'',
           created_at = \<lparr>year = 2024, month = 2, day = 3, hour = 4, minute = 5, second = 6,
             microsecond = 0\<rparr>\<rparr>],
         next_id = 4,
         clock = \<lparr>year = 2024, month = 2, day = 3, hour = 4, minute = 5, second = 6,
             microsecond = 0\<rparr>\<rparr>
     [(''limit'', ''1''), (''offset'', ''1'')] =
   (\<lparr>users =
          [\<lparr>uid = 2, first_name = ''Alan'', last_name = ''Turing'',
           created_at = \<lparr>year = 2024, month = 2, day = 3, hour = 4, minute = 5, second = 6,
             microsecond = 0\<rparr>\<rparr>,
           \<lparr>uid = 3, first_name = ''Grace'', last_name = ''Hopper'',
           created_at = \<lparr>year = 2024, month = 2, day = 3, hour = 4, minute = 5, second = 6,
             microsecond = 0\<rparr>\<rparr>,
           \<lparr>uid = 1, first_name = ''Ada'', last_name = ''Lovelace'',
           created_at = \<lparr>year = 2024, month = 2, day = 3, hour = 4, minute = 5, second = 6,
             microsecond = 0\<rparr>\<rparr>],
         next_id = 4,
         clock = \<lparr>year = 2024, month = 2, day = 3, hour = 4, minute = 5, second = 6,
             microsecond = 0\<rparr>\<rparr>,
    \<lparr>status = 200,
     body = JObj [(''users'', JArr (map user_json
                     [\<lparr>uid = 2, first_name = ''Alan'', last_name = ''Turing'',
                      created_at = \<lparr>year = 2024, month = 2, day = 3, hour = 4, minute = 5, second = 6,
                        microsecond = 0\<rparr>\<rparr>])),
                  (''limit'', JInt 1), (''offset'', JInt 1)]\<rparr>) \<and>
   get_all_users 4300 NoFault
     \<lparr>users =
          [\<lparr>uid = 2, first_name = ''Alan'', last_name = ''Turing'',
           created_at = \<lparr>year = 2024, month = 2, day = 3, hour = 4, minute = 5, second = 6,
             microsecond = 0\<rparr>\<rparr>,
           \<lparr>uid = 3, first_name = ''Grace'', last_name = ''Hopper'',
           created_at = \<lparr>year = 2024, month = 2, day = 3, hour = 4, minute = 5, second = 6,
             microsecond = 0\<rparr>\<rparr>,
           \<lparr>uid = 1, first_name = ''Ada'', last_name = ''Lovelace'',
           created_at = \<lparr>year = 2024, month = 2, day = 3, hour = 4, minute = 5, second = 6,
             microsecond = 0\<rparr>\<rparr>],
         next_id = 4,
         clock = \<lparr>year = 2024, month = 2, day = 3, hour = 4, minute = 5, second = 6,
             microsecond = 0\<rparr>\<rparr>
     [] =
   (\<lparr>users =
          [\<lparr>uid = 2, first_name = ''Alan'', last_name = ''Turing'',
           created_at = \<lparr>year = 2024, month = 2, day = 3, hour = 4, minute = 5, second = 6,
             microsecond = 0\<rparr>\<rparr>,
           \<lparr>uid = 3, first_name = ''Grace'', last_name = ''Hopper'',
           created_at = \<lparr>year = 2024, month = 2, day = 3, hour = 4, minute = 5, second = 6,
             microsecond = 0\<rparr>\<rparr>,
           \<lparr>uid = 1, first_name = ''Ada'', last_name = ''Lovelace'',
           created_at = \<lparr>year = 2024, month = 2, day = 3, hour = 4, minute = 5, second = 6,
             microsecond = 0\<rparr>\<rparr>],
         next_id = 4,
         clock = \<lparr>year = 2024, month = 2, day = 3, hour = 4, minute = 5, second = 6,
             microsecond = 0\<rparr>\<rparr>,
    \<lparr>status = 200,
     body = JObj [(''users'', JArr (map user_json
                     [\<lparr>uid = 1, first_name = ''Ada'', last_name = ''Lovelace'',
                      created_at = \<lparr>year = 2024, month = 2, day = 3, hour = 4, minute = 5, second = 6,
                        microsecond = 0\<rparr>\<rparr>,
                      \<lparr>uid = 2, first_name = ''Alan'', last_name = ''Turing'',
                      created_at = \<lparr>year = 2024, month = 2, day = 3, hour = 4, minute = 5, second = 6,
                        microsecond = 0\<rparr>\<rparr>,
                      \<lparr>uid = 3, first_name = ''Grace'', last_name = ''Hopper'',
                      created_at = \<lparr>year = 2024, month = 2, day = 3, hour = 4, minute = 5, second = 6,
                        microsecond = 0\<rparr>\<rparr>])),
                  (''limit'', JInt 10), (''offset'', JInt 0)]\<rparr>)"
proof -
  have l: "args_get 4300 [(''limit'', ''1''), (''offset'', ''1'')] ''limit'' 10 = 1"
    and o: "args_get 4300 [(''limit'', ''1''), (''offset'', ''1'')] ''offset'' 0 = 1"
    by (simp_all add: args_get_def py_int_examples)
  have l0: "args_get 4300 [] ''limit'' 10 = 10" and o0: "args_get 4300 [] ''offset'' 0 = 0"
    by (simp_all add: args_get_def)
  have v: "valid_row_count 1" "valid_row_count 10" "valid_row_count 0"
    by (simp_all add: valid_row_count_def)
  show ?thesis
    using
      get_all_users_page [of NoFault 1 4300 "[(''limit'', ''1''), (''offset'', ''1'')]" 1
        "\<lparr>users =
          [\<lparr>uid = 2, first_name = ''Alan'', last_name = ''Turing'',
           created_at = \<lparr>year = 2024, month = 2, day = 3, hour = 4, minute = 5, second = 6,
             microsecond = 0\<rparr>\<rparr>,
           \<lparr>uid = 3, first_name = ''Grace'', last_name = ''Hopper'',
           created_at = \<lparr>year = 2024, month = 2, day = 3, hour = 4, minute = 5, second = 6,
             microsecond = 0\<rparr>\<rparr>,
           \<lparr>uid = 1, first_name = ''Ada'', last_name = ''Lovelace'',
           created_at = \<lparr>year = 2024, month = 2, day = 3, hour = 4, minute = 5, second = 6,
             microsecond = 0\<rparr>\<rparr>],
         next_id = 4,
         clock = \<lparr>year = 2024, month = 2, day = 3, hour = 4, minute = 5, second = 6,
             microsecond = 0\<rparr>\<rparr>"]
      get_all_users_page [of NoFault 10 4300 "[]" 0
        "\<lparr>users =
          [\<lparr>uid = 2, first_name = ''Alan'', last_name = ''Turing'',
           created_at = \<lparr>year = 2024, month = 2, day = 3, hour = 4, minute = 5, second = 6,
             microsecond = 0\<rparr>\<rparr>,
           \<lparr>uid = 3, first_name = ''Grace'', last_name = ''Hopper'',
           created_at = \<lparr>year = 2024, month = 2, day = 3, hour = 4, minute = 5, second = 6,
             microsecond = 0\<rparr>\<rparr>,
           \<lparr>uid = 1, first_name = ''Ada'', last_name = ''Lovelace'',
           created_at = \<lparr>year = 2024, month = 2, day = 3, hour = 4, minute = 5, second = 6,
             microsecond = 0\<rparr>\<rparr>],
         next_id = 4,
         clock = \<lparr>year = 2024, month = 2, day = 3, hour = 4, minute = 5, second = 6,
             microsecond = 0\<rparr>\<rparr>"]
    by (simp add: l o l0 o0 v)
qed

text \<open>
  C4.  The claim that a \<open>limit\<close> which is not an integer makes the request fail does
  not hold: \<open>request.args.get\<close> returns the default when the conversion raises, and the
  request is answered with status 200 and \<open>limit\<close> 10.
\<close>

theorem get_all_users_unparseable_limit:
  "py_int 4300 ''abc'' = None \<and>
   get_all_users 4300 NoFault
     \<lparr>users =
          [\<lparr>uid = 2, first_name = ''Alan'', last_name = ''Turing'',
           created_at = \<lparr>year = 2024, month = 2, day = 3, hour = 4, minute = 5, second = 6,
             microsecond = 0\<rparr>\<rparr>,
           \<lparr>uid = 3, first_name = ''Grace'', last_name = ''Hopper'',
           created_at = \<lparr>year = 2024, month = 2, day = 3, hour = 4, minute = 5, second = 6,
             microsecond = 0\<rparr>\<rparr>,
           \<lparr>uid = 1, first_name = ''Ada'', last_name = ''Lovelace'',
           created_at = \<lparr>year = 2024, month = 2, day = 3, hour = 4, minute = 5, second = 6,
             microsecond = 0\<rparr>\<rparr>],
         next_id = 4,
         clock = \<lparr>year = 2024, month = 2, day = 3, hour = 4, minute = 5, second = 6,
             microsecond = 0\<rparr>\<rparr>
     [(''limit'', ''abc'')] =
   (\<lparr>users =
          [\<lparr>uid = 2, first_name = ''Alan'', last_name = ''Turing'',
           created_at = \<lparr>year = 2024, month = 2, day = 3, hour = 4, minute = 5, second = 6,
             microsecond = 0\<rparr>\<rparr>,
           \<lparr>uid = 3, first_name = ''Grace'', last_name = ''Hopper'',
           created_at = \<lparr>year = 2024, month = 2, day = 3, hour = 4, minute = 5, second = 6,
             microsecond = 0\<rparr>\<rparr>,
           \<lparr>uid = 1, first_name = ''Ada'', last_name = ''Lovelace'',
           created_at = \<lparr>year = 2024, month = 2, day = 3, hour = 4, minute = 5, second = 6,
             microsecond = 0\<rparr>\<rparr>],
         next_id = 4,
         clock = \<lparr>year = 2024, month = 2, day = 3, hour = 4, minute = 5, second = 6,
             microsecond = 0\<rparr>\<rparr>,
    \<lparr>status = 200,
     body = JObj [(''users'', JArr (map user_json
                     [\<lparr>uid = 1, first_name = ''Ada'', last_name = ''Lovelace'',
                      created_at = \<lparr>year = 2024, month = 2, day = 3, hour = 4, minute = 5, second = 6,
                        microsecond = 0\<rparr>\<rparr>,
                      \<lparr>uid = 2, first_name = ''Alan'', last_name = ''Turing'',
                      created_at = \<lparr>year = 2024, month = 2, day = 3, hour = 4, minute = 5, second = 6,
                        microsecond = 0\<rparr>\<rparr>,
                      \<lparr>uid = 3, first_name = ''Grace'', last_name = ''Hopper'',
                      created_at = \<lparr>year = 2024, month = 2, day = 3, hour = 4, minute = 5, second = 6,
                        microsecond = 0\<rparr>\<rparr>])),
                  (''limit'', JInt 10), (''offset'', JInt 0)]\<rparr>)"
  by (simp add: get_all_users_def get_all_users_try_def args_get_def py_int_examples
      get_db_connection_def execute_select_page_def valid_row_count_def)

text \<open>
  C4, as amended.  A \<open>limit\<close> or \<open>offset\<close> that is present but is not accepted by
  \<open>int()\<close> is replaced by its default, 10 for \<open>limit\<close> and 0 for \<open>offset\<close>, and the
  request is answered exactly as if the parameter had been left out: when no database
  call fails and the other parameter is a row count the database accepts, with status
  200, the page cut with the default, and the default in the envelope.  In every case
  the handler answers with status 200 or 500 and leaves the database as it was.
\<close>

theorem get_all_users_unparseable_defaulted:
  assumes "k = ''limit'' \<or> k = ''offset''"
    and "map_of args k = Some v" and "py_int m v = None"
    and "lim = (if k = ''limit'' then 10 else args_get m args ''limit'' 10)"
    and "off = (if k = ''offset'' then 0 else args_get m args ''offset'' 0)"
  shows "args_get m args ''limit'' 10 = lim \<and> args_get m args ''offset'' 0 = off \<and>
     get_all_users m flt db args = get_all_users m flt db (filter (\<lambda>p. fst p \<noteq> k) args) \<and>
     (flt = NoFault \<and> valid_row_count lim \<and> valid_row_count off \<longrightarrow>
        get_all_users m flt db args =
          (db, \<lparr>status = 200,
                body = JObj [(''users'', JArr (map user_json
                                (take (nat lim) (drop (nat off) (sort_key uid (users db)))))),
                             (''limit'', JInt lim), (''offset'', JInt off)]\<rparr>)) \<and>
     fst (get_all_users m flt db args) = db \<and>
     (status (snd (get_all_users m flt db args)) = 200 \<or>
      status (snd (get_all_users m flt db args)) = 500)"
proof -
  have dflt: "args_get m args k d = d" for d
    using assms(2,3) by (simp add: args_get_def)
  have l: "args_get m args ''limit'' 10 = lim"
    using assms(4) dflt [of 10] by auto
  have o: "args_get m args ''offset'' 0 = off"
    using assms(5) dflt [of 0] by auto
  have "args_get m (filter (\<lambda>p. fst p \<noteq> k) args) k' d = args_get m args k' d" for k' d
    using dflt [of d] by (simp add: args_get_without)
  then have same: "get_all_users m flt db args =
      get_all_users m flt db (filter (\<lambda>p. fst p \<noteq> k) args)"
    by (simp add: get_all_users_def get_all_users_try_def)
  have answered: "get_all_users m flt db args =
      (db, \<lparr>status = 200,
            body = JObj [(''users'', JArr (map user_json
                            (take (nat lim) (drop (nat off) (sort_key uid (users db)))))),
                         (''limit'', JInt lim), (''offset'', JInt off)]\<rparr>)"
    if "flt = NoFault" and "valid_row_count lim" and "valid_row_count off"
    using that get_all_users_answer [of m args db] by (simp add: l o)
  from l o same answered get_all_users_status [of m flt db args] show ?thesis
    by blast
qed

text \<open>
  With \<open>limit=abc\<close> and \<open>offset=1\<close> the page is cut with the default limit 10: the two
  rows after the first are listed, and the envelope holds 10 and 1.
\<close>

theorem get_all_users_unparseable_defaulted_witness:
  "py_int 4300 ''abc'' = None \<and>
   get_all_users 4300 NoFault
     \<lparr>users =
          [\<lparr>uid = 2, first_name = ''Alan'', last_name = ''Turing'',
           created_at = \<lparr>year = 2024, month = 2, day = 3, hour = 4, minute = 5, second = 6,
             microsecond = 0\<rparr>\<rparr>,
           \<lparr>uid = 3, first_name = ''Grace'', last_name = ''Hopper'',
           created_at = \<lparr>year = 2024, month = 2, day = 3, hour = 4, minute = 5, second = 6,
             microsecond = 0\<rparr>\<rparr>,
           \<lparr>uid = 1, first_name = ''Ada'', last_name = ''Lovelace'',
           created_at = \<lparr>year = 2024, month = 2, day = 3, hour = 4, minute = 5, second = 6,
             microsecond = 0\<rparr>\<rparr>],
         next_id = 4,
         clock = \<lparr>year = 2024, month = 2, day = 3, hour = 4, minute = 5, second = 6,
             microsecond = 0\<rparr>\<rparr>
     [(''limit'', ''abc''), (''offset'', ''1'')] =
   (\<lparr>users =
          [\<lparr>uid = 2, first_name = ''Alan'', last_name = ''Turing'',
           created_at = \<lparr>year = 2024, month = 2, day = 3, hour = 4, minute = 5, second = 6,
             microsecond = 0\<rparr>\<rparr>,
           \<lparr>uid = 3, first_name = ''Grace'', last_name = ''Hopper'',
           created_at = \<lparr>year = 2024, month = 2, day = 3, hour = 4, minute = 5, second = 6,
             microsecond = 0\<rparr>\<rparr>,
           \<lparr>uid = 1, first_name = ''Ada'', last_name = ''Lovelace'',
           created_at = \<lparr>year = 2024, month = 2, day = 3, hour = 4, minute = 5, second = 6,
             microsecond = 0\<rparr>\<rparr>],
         next_id = 4,
         clock = \<lparr>year = 2024, month = 2, day = 3, hour = 4, minute = 5, second = 6,
             microsecond = 0\<rparr>\<rparr>,
    \<lparr>status = 200,
     body = JObj [(''users'', JArr (map user_json
                     [\<lparr>uid = 2, first_name = ''Alan'', last_name = ''Turing'',
                      created_at = \<lparr>year = 2024, month = 2, day = 3, hour = 4, minute = 5, second = 6,
                        microsecond = 0\<rparr>\<rparr>,
                      \<lparr>uid = 3, first_name = ''Grace'', last_name = ''Hopper'',
                      created_at = \<lparr>year = 2024, month = 2, day = 3, hour = 4, minute = 5, second = 6,
                        microsecond = 0\<rparr>\<rparr>])),
                  (''limit'', JInt 10), (''offset'', JInt 1)]\<rparr>)"
proof -
  have k: "''limit'' = ''limit'' \<or> ''limit'' = ''offset''"
    by simp
  have bound: "map_of [(''limit'', ''abc''), (''offset'', ''1'')] ''limit'' = Some ''abc''"
    by simp
  have none: "py_int 4300 ''abc'' = None"
    by (simp add: py_int_examples)
  have l: "(10::int) = (if ''limit'' = ''limit'' then 10
      else args_get 4300 [(''limit'', ''abc''), (''offset'', ''1'')] ''limit'' 10)"
    by simp
  have o: "(1::int) = (if ''limit'' = ''offset'' then 0
      else args_get 4300 [(''limit'', ''abc''), (''offset'', ''1'')] ''offset'' 0)"
    by (simp add: args_get_def py_int_examples)
  have v: "NoFault = NoFault \<and> valid_row_count 10 \<and> valid_row_count 1"
    by (simp add: valid_row_count_def)
  have "get_all_users 4300 NoFault
      \<lparr>users =
          [\<lparr>uid = 2, first_name = ''Alan'', last_name = ''Turing'',
           created_at = \<lparr>year = 2024, month = 2, day = 3, hour = 4, minute = 5, second = 6,
             microsecond = 0\<rparr>\<rparr>,
           \<lparr>uid = 3, first_name = ''Grace'', last_name = ''Hopper'',
           created_at = \<lparr>year = 2024, month = 2, day = 3, hour = 4, minute = 5, second = 6,
             microsecond = 0\<rparr>\<rparr>,
           \<lparr>uid = 1, first_name = ''Ada'', last_name = ''Lovelace'',
           created_at = \<lparr>year = 2024, month = 2, day = 3, hour = 4, minute = 5, second = 6,
             microsecond = 0\<rparr>\<rparr>],
         next_id = 4,
         clock = \<lparr>year = 2024, month = 2, day = 3, hour = 4, minute = 5, second = 6,
             microsecond = 0\<rparr>\<rparr>
      [(''limit'', ''abc''), (''offset'', ''1'')] =
    (\<lparr>users =
          [\<lparr>uid = 2, first_name = ''Alan'', last_name = ''Turing'',
           created_at = \<lparr>year = 2024, month = 2, day = 3, hour = 4, minute = 5, second = 6,
             microsecond = 0\<rparr>\<rparr>,
           \<lparr>uid = 3, first_name = ''Grace'', last_name = ''Hopper'',
           created_at = \<lparr>year = 2024, month = 2, day = 3, hour = 4, minute = 5, second = 6,
             microsecond = 0\<rparr>\<rparr>,
           \<lparr>uid = 1, first_name = ''Ada'', last_name = ''Lovelace'',
           created_at = \<lparr>year = 2024, month = 2, day = 3, hour = 4, minute = 5, second = 6,
             microsecond = 0\<rparr>\<rparr>],
         next_id = 4,
         clock = \<lparr>year = 2024, month = 2, day = 3, hour = 4, minute = 5, second = 6,
             microsecond = 0\<rparr>\<rparr>,
     \<lparr>status = 200,
      body = JObj [(''users'', JArr (map user_json
                     (take (nat 10) (drop (nat 1) (sort_key uid (users
                        \<lparr>users =
          [\<lparr>uid = 2, first_name = ''Alan'', last_name = ''Turing'',
           created_at = \<lparr>year = 2024, month = 2, day = 3, hour = 4, minute = 5, second = 6,
             microsecond = 0\<rparr>\<rparr>,
           \<lparr>uid = 3, first_name = ''Grace'', last_name = ''Hopper'',
           created_at = \<lparr>year = 2024, month = 2, day = 3, hour = 4, minute = 5, second = 6,
             microsecond = 0\<rparr>\<rparr>,
           \<lparr>uid = 1, first_name = ''Ada'', last_name = ''Lovelace'',
           created_at = \<lparr>year = 2024, month = 2, day = 3, hour = 4, minute = 5, second = 6,
             microsecond = 0\<rparr>\<rparr>],
         next_id = 4,
         clock = \<lparr>year = 2024, month = 2, day = 3, hour = 4, minute = 5, second = 6,
             microsecond = 0\<rparr>\<rparr>)))))),
                   (''limit'', JInt 10), (''offset'', JInt 1)]\<rparr>)"
    using get_all_users_unparseable_defaulted [OF k bound none l o, of NoFault
        "\<lparr>users =
          [\<lparr>uid = 2, first_name = ''Alan'', last_name = ''Turing'',
           created_at = \<lparr>year = 2024, month = 2, day = 3, hour = 4, minute = 5, second = 6,
             microsecond = 0\<rparr>\<rparr>,
           \<lparr>uid = 3, first_name = ''Grace'', last_name = ''Hopper'',
           created_at = \<lparr>year = 2024, month = 2, day = 3, hour = 4, minute = 5, second = 6,
             microsecond = 0\<rparr>\<rparr>,
           \<lparr>uid = 1, first_name = ''Ada'', last_name = ''Lovelace'',
           created_at = \<lparr>year = 2024, month = 2, day = 3, hour = 4, minute = 5, second = 6,
             microsecond = 0\<rparr>\<rparr>],
         next_id = 4,
         clock = \<lparr>year = 2024, month = 2, day = 3, hour = 4, minute = 5, second = 6,
             microsecond = 0\<rparr>\<rparr>"] v
    by blast
  with none show ?thesis
    by simp
qed

text \<open>
  The same holds of a value that \<open>strip()\<close> would turn into digits but \<open>int()\<close>
  rejects: the request is answered with the default limit.
\<close>

lemma get_all_users_file_separator_limit:
  "get_all_users m NoFault db [(''limit'', [CHR 0x1C, CHR ''1''])] =
   get_all_users m NoFault db []"
  by (simp add: get_all_users_def get_all_users_try_def args_get_def py_int_file_separator)

end
